theory Spec2Isabelle
  imports Complex_Main
begin

section \<open>The plotting script \<open>plot.py\<close>\<close>

text \<open>
  \<open>plot.py\<close> loads a whitespace-separated table with \<open>numpy.loadtxt\<close> and draws a grouped
  bar chart with matplotlib. The embedding follows the script line by line.

  \<^item> Python floats are IEEE-754 doubles: a double is the real number it stands for, and
    every arithmetic operation on doubles (\<open>+\<close>, \<open>*\<close>, \<open>/\<close>) returns the exact result
    rounded to the nearest double, ties to even. The exponent range is not bounded
    (no overflow to \<open>inf\<close>, no subnormal numbers), and \<open>nan\<close> and \<open>inf\<close> are not
    modelled. An integer that Python or numpy converts to a double (a loop index, an
    element of \<open>numpy.arange\<close>) is below \<open>2^53\<close>, so the conversion is exact.
  \<^item> numpy arrays are views (offset, shape, strides) into buffers of a heap, so that
    slicing and transposing share the buffer of the array they are taken from, as in
    numpy, and arithmetic on arrays allocates a new buffer.
  \<^item> matplotlib is modelled by the list of calls made to it, in order, each with the
    values of its arguments at the time of the call.
  \<^item> an exception is an outcome \<open>Raised e\<close>, returned with the state reached so far.
\<close>

subsection \<open>Exceptions and outcomes\<close>

datatype py_error = IndexError | TypeError | ZeroDivisionError | ValueError | FileNotFoundError

datatype outcome = Returned | Raised py_error

subsection \<open>IEEE-754 double arithmetic\<close>

text \<open>Rounding a real to the nearest integer, ties to the even one.\<close>

definition round_even :: "real \<Rightarrow> real" where
  "round_even y =
     (let f = \<lfloor>y\<rfloor>; d = y - of_int f
      in if d < 1 / 2 then of_int f
         else if 1 / 2 < d then of_int (f + 1)
         else if even f then of_int f else of_int (f + 1))"

text \<open>
  Rounding a positive real to 53 significant bits: scaled by a power of two into
  \<open>[2^52, 2^53)\<close>, where the doubles are the integers, rounded there, and scaled back.
\<close>

function fl_pos :: "real \<Rightarrow> real" where
  "fl_pos x =
     (if x \<le> 0 then 0
      else if 2 ^ 53 \<le> x then 2 * fl_pos (x / 2)
      else if x < 2 ^ 52 then fl_pos (2 * x) / 2
      else round_even x)"
  by pat_completeness auto
termination
proof (relation "measure (\<lambda>x. nat \<bar>\<lfloor>log 2 x\<rfloor> - 52\<bar>)")
  show "wf (measure (\<lambda>x. nat \<bar>\<lfloor>log 2 x\<rfloor> - 52\<bar>))"
    by simp
next
  fix x :: real
  assume "\<not> x \<le> 0" and big: "2 ^ 53 \<le> x"
  then have pos: "0 < x" by simp
  have l: "53 \<le> log 2 x"
    using le_log_of_power [of 2 53 x] big by simp
  then have f: "53 \<le> \<lfloor>log 2 x\<rfloor>"
    by linarith
  have "log 2 (x / 2) = log 2 x - 1"
    using pos by (simp add: log_divide)
  then have "\<lfloor>log 2 (x / 2)\<rfloor> = \<lfloor>log 2 x\<rfloor> - 1"
    by simp
  with f show "(x / 2, x) \<in> measure (\<lambda>x. nat \<bar>\<lfloor>log 2 x\<rfloor> - 52\<bar>)"
    by simp
next
  fix x :: real
  assume "\<not> x \<le> 0" and "\<not> 2 ^ 53 \<le> x" and small: "x < 2 ^ 52"
  then have pos: "0 < x" by simp
  have l: "log 2 x < 52"
    using small pos by (simp add: log_less_iff)
  then have f: "\<lfloor>log 2 x\<rfloor> \<le> 51"
    by linarith
  have "log 2 (2 * x) = log 2 x + 1"
    using pos by (simp add: log_mult)
  then have "\<lfloor>log 2 (2 * x)\<rfloor> = \<lfloor>log 2 x\<rfloor> + 1"
    by simp
  with f show "(2 * x, x) \<in> measure (\<lambda>x. nat \<bar>\<lfloor>log 2 x\<rfloor> - 52\<bar>)"
    by simp
qed

text \<open>\<open>fl x\<close>: the double nearest to \<open>x\<close>.\<close>

definition fl :: "real \<Rightarrow> real" where
  "fl x = (if x < 0 then - fl_pos (- x) else fl_pos x)"

declare fl_pos.simps [simp del]

text \<open>The operations \<open>a + b\<close>, \<open>a * b\<close>, \<open>a / b\<close> on doubles (\<open>b\<close> not zero in the last).\<close>

definition fadd :: "real \<Rightarrow> real \<Rightarrow> real" where
  "fadd a b = fl (a + b)"

definition fmul :: "real \<Rightarrow> real \<Rightarrow> real" where
  "fmul a b = fl (a * b)"

definition fdiv :: "real \<Rightarrow> real \<Rightarrow> real" where
  "fdiv a b = fl (a / b)"

subsection \<open>numpy arrays\<close>

type_synonym addr = nat

text \<open>The heap of numpy buffers: the buffer at address \<open>a\<close> is \<open>h ! a\<close>.\<close>

type_synonym heap = "real list list"

text \<open>
  An array of rank 0, 1 or 2 (the ranks \<open>numpy.loadtxt\<close> can return):
  \<^item> \<open>Arr0 b off\<close>: the scalar at position \<open>off\<close> of buffer \<open>b\<close>;
  \<^item> \<open>Arr1 b off n s\<close>: \<open>n\<close> elements, element \<open>k\<close> at \<open>off + k * s\<close>;
  \<^item> \<open>Arr2 b off r c rs cs\<close>: shape \<open>(r, c)\<close>, element \<open>(i, j)\<close> at \<open>off + i * rs + j * cs\<close>.
\<close>

datatype ndarray =
    Arr0 addr nat
  | Arr1 addr nat nat nat
  | Arr2 addr nat nat nat nat nat

text \<open>The elements of an array in row-major order.\<close>

fun elems :: "heap \<Rightarrow> ndarray \<Rightarrow> real list" where
  "elems h (Arr0 b off) = [h ! b ! off]"
| "elems h (Arr1 b off n s) = map (\<lambda>k. h ! b ! (off + k * s)) [0..<n]"
| "elems h (Arr2 b off r c rs cs) =
     concat (map (\<lambda>i. map (\<lambda>j. h ! b ! (off + i * rs + j * cs)) [0..<c]) [0..<r])"

text \<open>\<open>data[i, j]\<close>: reading one cell of a two-dimensional array.\<close>

fun getitem2 :: "heap \<Rightarrow> ndarray \<Rightarrow> nat \<Rightarrow> nat \<Rightarrow> py_error + real" where
  "getitem2 h (Arr2 b off r c rs cs) i j =
     (if i < r \<and> j < c then Inr (h ! b ! (off + i * rs + j * cs)) else Inl IndexError)"
| "getitem2 h (Arr1 b off n s) i j = Inl IndexError"
| "getitem2 h (Arr0 b off) i j = Inl IndexError"

text \<open>\<open>data[:, j]\<close>: a view of column \<open>j\<close>; too many indices for an array of rank below 2.\<close>

fun getitem_col :: "ndarray \<Rightarrow> nat \<Rightarrow> py_error + ndarray" where
  "getitem_col (Arr2 b off r c rs cs) j =
     (if j < c then Inr (Arr1 b (off + j * cs) r rs) else Inl IndexError)"
| "getitem_col (Arr1 b off n s) j = Inl IndexError"
| "getitem_col (Arr0 b off) j = Inl IndexError"

text \<open>\<open>data[:, k:]\<close>: a view of the columns from \<open>k\<close> on (none when \<open>k\<close> is past the end).\<close>

fun getitem_cols_from :: "ndarray \<Rightarrow> nat \<Rightarrow> py_error + ndarray" where
  "getitem_cols_from (Arr2 b off r c rs cs) k =
     Inr (Arr2 b (off + min k c * cs) r (c - k) rs cs)"
| "getitem_cols_from (Arr1 b off n s) k = Inl IndexError"
| "getitem_cols_from (Arr0 b off) k = Inl IndexError"

text \<open>\<open>numpy.transpose\<close>: a view with the axes reversed.\<close>

fun numpy_transpose :: "ndarray \<Rightarrow> ndarray" where
  "numpy_transpose (Arr2 b off r c rs cs) = Arr2 b off c r cs rs"
| "numpy_transpose (Arr1 b off n s) = Arr1 b off n s"
| "numpy_transpose (Arr0 b off) = Arr0 b off"

text \<open>\<open>len(a)\<close>: the length of the first axis.\<close>

fun py_len :: "ndarray \<Rightarrow> py_error + nat" where
  "py_len (Arr2 b off r c rs cs) = Inr r"
| "py_len (Arr1 b off n s) = Inr n"
| "py_len (Arr0 b off) = Inl TypeError"

text \<open>Iterating over an array yields views along its first axis.\<close>

fun py_iter :: "ndarray \<Rightarrow> py_error + ndarray list" where
  "py_iter (Arr2 b off r c rs cs) = Inr (map (\<lambda>i. Arr1 b (off + i * rs) c cs) [0..<r])"
| "py_iter (Arr1 b off n s) = Inr (map (\<lambda>k. Arr0 b (off + k * s)) [0..<n])"
| "py_iter (Arr0 b off) = Inl TypeError"

text \<open>A newly allocated, contiguous array at address \<open>a\<close> with the shape of a given one.\<close>

fun fresh_like :: "addr \<Rightarrow> ndarray \<Rightarrow> ndarray" where
  "fresh_like a (Arr0 b off) = Arr0 a 0"
| "fresh_like a (Arr1 b off n s) = Arr1 a 0 n 1"
| "fresh_like a (Arr2 b off r c rs cs) = Arr2 a 0 r c c 1"

text \<open>
  \<open>a + d\<close> and \<open>a * m\<close> for an array \<open>a\<close> and a scalar: the result is a new array, the
  operand is only read.
\<close>

definition scalar_op :: "(real \<Rightarrow> real) \<Rightarrow> heap \<Rightarrow> ndarray \<Rightarrow> ndarray \<times> heap" where
  "scalar_op f h a = (fresh_like (length h) a, h @ [map f (elems h a)])"

text \<open>\<open>numpy.arange(n)\<close>: a new array holding \<open>0, 1, ..., n - 1\<close>.\<close>

definition arange :: "heap \<Rightarrow> nat \<Rightarrow> ndarray \<times> heap" where
  "arange h n = (Arr1 (length h) 0 n 1, h @ [map real [0..<n]])"

text \<open>\<open>int(v)\<close> of a float: truncation towards zero.\<close>

definition py_int :: "real \<Rightarrow> int" where
  "py_int v = (if 0 \<le> v then \<lfloor>v\<rfloor> else \<lceil>v\<rceil>)"

subsection \<open>matplotlib calls\<close>

datatype mpl_call =
    Subplots
  | Bar "real list" "real list" real string
  | Set_title string
  | Set_xlabel string
  | Set_ylabel string
  | Set_xticks "real list"
  | Set_xticklabels "int list"
  | Legend string
  | Show
  | Savefig string string nat string

text \<open>The state of a run: the numpy heap and the matplotlib calls made so far.\<close>

record world =
  heap :: heap
  calls :: "mpl_call list"

subsection \<open>The function \<open>plot\<close>\<close>

definition WIDTH :: real where
  "WIDTH = 0.5"

text \<open>The literal \<open>1e-6\<close>: the double nearest to one millionth.\<close>

definition MULTIPLIER :: real where
  "MULTIPLIER = fl (1 / 1000000)"

definition channel_labels :: "string list" where
  "channel_labels =
     [''async-channel::bounded'', ''flume::bounded'', ''futures::mpsc'', ''kanal'',
      ''postage::mpsc'', ''tachyonix'', ''thingbuf'', ''tokio::mpsc'']"

text \<open>\<open>delta = -WIDTH/2.0 + i*WIDTH/(n_channels-1)\<close>, the division guarded by the caller.\<close>

definition delta :: "nat \<Rightarrow> nat \<Rightarrow> real" where
  "delta i n_channels =
     fadd (fdiv (- WIDTH) 2) (fdiv (fmul (real i) WIDTH) (real_of_int (int n_channels - 1)))"

text \<open>
  The loop \<open>for i, col in enumerate(data)\<close>. The arguments of \<open>ax.bar\<close> are evaluated from
  left to right before the call: \<open>x + delta\<close>, \<open>col*MULTIPLIER\<close>, \<open>WIDTH/n_channels\<close>,
  \<open>channel_labels[i]\<close>.
\<close>

fun bar_loop :: "ndarray \<Rightarrow> nat \<Rightarrow> world \<Rightarrow> (nat \<times> ndarray) list \<Rightarrow> world \<times> outcome" where
  "bar_loop x n_channels w [] = (w, Returned)"
| "bar_loop x n_channels w ((i, col) # rest) =
     (if int n_channels - 1 = 0 then (w, Raised ZeroDivisionError)
      else
        let (xs, h1) = scalar_op (\<lambda>v. fadd v (delta i n_channels)) (heap w) x;
            (ys, h2) = scalar_op (\<lambda>v. fmul v MULTIPLIER) h1 col
        in if n_channels = 0 then (w\<lparr>heap := h2\<rparr>, Raised ZeroDivisionError)
           else if \<not> i < length channel_labels then (w\<lparr>heap := h2\<rparr>, Raised IndexError)
           else bar_loop x n_channels
                  (w\<lparr>heap := h2,
                     calls := calls w @
                       [Bar (elems h2 xs) (elems h2 ys) (fdiv WIDTH (real n_channels))
                          (channel_labels ! i)]\<rparr>)
                  rest)"

text \<open>
  The calls after the loop, from \<open>ax.set_title\<close> to \<open>plt.show\<close> or \<open>plt.savefig\<close>; \<open>x\<close>
  stands for the elements of the array \<open>x\<close> when \<open>ax.set_xticks\<close> is called.
\<close>

definition decorate ::
  "real list \<Rightarrow> int list \<Rightarrow> string option \<Rightarrow> string option \<Rightarrow> string option \<Rightarrow>
   mpl_call list" where
  "decorate x parameter_labels x_label title output =
     (case title of None \<Rightarrow> [] | Some t \<Rightarrow> [Set_title t]) @
     (case x_label of None \<Rightarrow> [] | Some l \<Rightarrow> [Set_xlabel l]) @
     [Set_ylabel (''msg/'' @ [CHR 0xC2, CHR 0xB5] @ ''s''),
      Set_xticks x,
      Set_xticklabels parameter_labels,
      Legend ''upper left''] @
     (case output of
        None \<Rightarrow> [Show]
      | Some path \<Rightarrow> [Savefig path ''png'' 150 ''tight''])"

definition plot ::
  "world \<Rightarrow> ndarray \<Rightarrow> string option \<Rightarrow> string option \<Rightarrow> string option \<Rightarrow> world \<times> outcome" where
  "plot w data x_label title output =
     (case getitem_col data 0 of
        Inl e \<Rightarrow> (w, Raised e)
      | Inr first_col \<Rightarrow>
          let parameter_labels = map py_int (elems (heap w) first_col) in
          (case getitem_cols_from data 1 of
             Inl e \<Rightarrow> (w, Raised e)
           | Inr sliced \<Rightarrow>
               let data' = numpy_transpose sliced;
                   (x, h1) = arange (heap w) (length parameter_labels)
               in
               (case py_len data' of
                  Inl e \<Rightarrow> (w\<lparr>heap := h1\<rparr>, Raised e)
                | Inr n_channels \<Rightarrow>
                    let w1 = w\<lparr>heap := h1, calls := calls w @ [Subplots]\<rparr> in
                    (case py_iter data' of
                       Inl e \<Rightarrow> (w1, Raised e)
                     | Inr cols \<Rightarrow>
                         (case bar_loop x n_channels w1 (enumerate 0 cols) of
                            (w2, Raised e) \<Rightarrow> (w2, Raised e)
                          | (w2, Returned) \<Rightarrow>
                              (w2\<lparr>calls := calls w2 @
                                   decorate (elems (heap w2) x) parameter_labels x_label title output\<rparr>,
                               Returned))))))"

subsection \<open>The script: \<open>open\<close>, \<open>numpy.loadtxt\<close>, \<open>plot\<close>\<close>

text \<open>
  A text file as \<open>numpy.loadtxt\<close> reads it: its lines, each split at whitespace into
  fields, a field being the text of a number (\<open>Number v\<close>, with \<open>v\<close> the double that
  \<open>float\<close> returns for it) or any other text.
\<close>

datatype field = Number real | Text string

fun is_number :: "field \<Rightarrow> bool" where
  "is_number (Number v) = True"
| "is_number (Text s) = False"

fun number_of :: "field \<Rightarrow> real" where
  "number_of (Number v) = v"
| "number_of (Text s) = 0"

text \<open>
  \<open>numpy.loadtxt(f)\<close> with its default arguments, as numpy documents it: blank lines are
  skipped; a field that is not a number, or a row whose number of fields differs from
  the first row's, raises \<open>ValueError\<close>; the result is a new array of shape (rows,
  columns) from which the axes of length one are removed (\<open>ndmin=0\<close>), and an empty
  1-D array when there is no row.
\<close>

definition loadtxt :: "heap \<Rightarrow> field list list \<Rightarrow> py_error + ndarray \<times> heap" where
  "loadtxt h lines =
     (let rows = filter (\<lambda>r. r \<noteq> []) lines in
      if \<not> list_all (list_all is_number) rows then Inl ValueError
      else if \<not> list_all (\<lambda>r. length r = length (hd rows)) rows then Inl ValueError
      else
        let a = length h;
            h' = h @ [concat (map (map number_of) rows)];
            r = length rows;
            c = (if rows = [] then 0 else length (hd rows))
        in if r = 0 then Inr (Arr1 a 0 0 1, h')
           else if r = 1 \<and> c = 1 then Inr (Arr0 a 0, h')
           else if r = 1 then Inr (Arr1 a 0 c 1, h')
           else if c = 1 then Inr (Arr1 a 0 r 1, h')
           else Inr (Arr2 a 0 r c c 1, h'))"

text \<open>The command line as \<open>argparse\<close> returns it.\<close>

record args =
  arg_file :: string
  arg_xlabel :: "string option"
  arg_title :: "string option"
  arg_output :: "string option"

text \<open>
  The body of the script after argument parsing. \<open>fs\<close> maps the paths that can be opened
  to their contents; \<open>open\<close> of any other path raises \<open>FileNotFoundError\<close>. No exception
  is caught.
\<close>

definition main :: "(string \<Rightarrow> field list list option) \<Rightarrow> args \<Rightarrow> world \<times> outcome" where
  "main fs a =
     (let w0 = \<lparr>heap = [], calls = []\<rparr> in
      case fs (arg_file a) of
        None \<Rightarrow> (w0, Raised FileNotFoundError)
      | Some lines \<Rightarrow>
          (case loadtxt (heap w0) lines of
             Inl e \<Rightarrow> (w0, Raised e)
           | Inr (data, h) \<Rightarrow>
               plot (w0\<lparr>heap := h\<rparr>) data (arg_xlabel a) (arg_title a) (arg_output a)))"

text \<open>
  The exit status of the interpreter: 0 when the script runs to its end, 1 when an
  exception propagates out of it.
\<close>

fun exit_status :: "outcome \<Rightarrow> nat" where
  "exit_status Returned = 0"
| "exit_status (Raised e) = 1"

subsection \<open>Observations on a run\<close>

fun is_bar :: "mpl_call \<Rightarrow> bool" where
  "is_bar (Bar xs hs bw l) = True"
| "is_bar c = False"

text \<open>The bar series drawn, in drawing order.\<close>

definition bars :: "mpl_call list \<Rightarrow> mpl_call list" where
  "bars cs = filter is_bar cs"

text \<open>The files written: the paths given to \<open>plt.savefig\<close>.\<close>

fun files_written :: "mpl_call list \<Rightarrow> string list" where
  "files_written [] = []"
| "files_written (Savefig path fmt dpi bbox # cs) = path # files_written cs"
| "files_written (c # cs) = files_written cs"

text \<open>
  A table of \<open>R\<close> rows and \<open>C\<close> columns: a two-dimensional array of that shape whose
  buffer is in the heap and holds every cell.
\<close>

fun table :: "heap \<Rightarrow> ndarray \<Rightarrow> nat \<Rightarrow> nat \<Rightarrow> bool" where
  "table h (Arr2 b off r c rs cs) R C =
     (r = R \<and> c = C \<and> b < length h \<and>
      (r = 0 \<or> c = 0 \<or> off + (r - 1) * rs + (c - 1) * cs < length (h ! b)))"
| "table h (Arr1 b off n s) R C = False"
| "table h (Arr0 b off) R C = False"

text \<open>The buffer an array reads from.\<close>

fun base :: "ndarray \<Rightarrow> addr" where
  "base (Arr0 b off) = b"
| "base (Arr1 b off n s) = b"
| "base (Arr2 b off r c rs cs) = b"

text \<open>A one-dimensional array whose buffer is in the heap.\<close>

fun vec :: "heap \<Rightarrow> ndarray \<Rightarrow> bool" where
  "vec h (Arr1 b off n s) = (b < length h)"
| "vec h (Arr2 b off r c rs cs) = False"
| "vec h (Arr0 b off) = False"

text \<open>
  The call \<open>ax.bar(x + delta, col*MULTIPLIER, WIDTH/n_channels, label=channel_labels[i])\<close>
  of round \<open>(i, col)\<close> of the loop, with the arrays read in heap \<open>h\<close>.
\<close>

definition bar_of :: "heap \<Rightarrow> ndarray \<Rightarrow> nat \<Rightarrow> nat \<times> ndarray \<Rightarrow> mpl_call" where
  "bar_of h x n p =
     Bar (map (\<lambda>v. fadd v (delta (fst p) n)) (elems h x))
         (map (\<lambda>v. fmul v MULTIPLIER) (elems h (snd p)))
         (fdiv WIDTH (real n)) (channel_labels ! fst p)"

text \<open>
  The bar series of column \<open>i + 1\<close> of a table: one bar per row \<open>k\<close>, at the double
  \<open>k + delta\<close>, as high as the double product of the cell and \<open>MULTIPLIER\<close>.
\<close>

definition chart_bar :: "heap \<Rightarrow> ndarray \<Rightarrow> nat \<Rightarrow> mpl_call" where
  "chart_bar h data i =
     (case data of
        Arr2 b off r c rs cs \<Rightarrow>
          Bar (map (\<lambda>k. fadd (real k) (delta i (c - 1))) [0..<r])
              (map (\<lambda>k. fmul (h ! b ! (off + k * rs + (i + 1) * cs)) MULTIPLIER) [0..<r])
              (fdiv WIDTH (real (c - 1))) (channel_labels ! i)
      | _ \<Rightarrow> Subplots)"

text \<open>The calls made during a run from \<open>w\<close> to \<open>w'\<close>.\<close>

definition made :: "world \<Rightarrow> world \<Rightarrow> mpl_call list" where
  "made w w' = drop (length (calls w)) (calls w')"

text \<open>The arguments of a call of \<open>ax.bar\<close>: positions, heights, width and label.\<close>

fun bar_x :: "mpl_call \<Rightarrow> real list" where
  "bar_x (Bar xs hs bw l) = xs"
| "bar_x c = []"

fun bar_height :: "mpl_call \<Rightarrow> real list" where
  "bar_height (Bar xs hs bw l) = hs"
| "bar_height c = []"

fun bar_width :: "mpl_call \<Rightarrow> real" where
  "bar_width (Bar xs hs bw l) = bw"
| "bar_width c = 0"

fun bar_label :: "mpl_call \<Rightarrow> string" where
  "bar_label (Bar xs hs bw l) = l"
| "bar_label c = []"

text \<open>The arguments of the calls of \<open>ax.set_xticks\<close> and \<open>ax.set_xticklabels\<close>.\<close>

fun xticks :: "mpl_call list \<Rightarrow> real list list" where
  "xticks [] = []"
| "xticks (Set_xticks x # cs) = x # xticks cs"
| "xticks (c # cs) = xticks cs"

fun xticklabels :: "mpl_call list \<Rightarrow> int list list" where
  "xticklabels [] = []"
| "xticklabels (Set_xticklabels ls # cs) = ls # xticklabels cs"
| "xticklabels (c # cs) = xticklabels cs"

text \<open>The elements of \<open>data[:, j]\<close>, column \<open>j\<close> of a table, from the first row to the last.\<close>

definition column :: "heap \<Rightarrow> ndarray \<Rightarrow> nat \<Rightarrow> real list" where
  "column h data j = (case getitem_col data j of Inl e \<Rightarrow> [] | Inr c \<Rightarrow> elems h c)"

text \<open>
  The table of the example run: two rows of a parameter and eight throughputs, in one
  contiguous buffer, and a world that holds nothing else.
\<close>

definition example_heap :: heap where
  "example_heap =
     [[1, 100, 200, 300, 400, 500, 600, 700, 800,
       2, 150, 250, 350, 450, 550, 650, 750, 850]]"

definition example_world :: world where
  "example_world = \<lparr>heap = example_heap, calls = []\<rparr>"

definition example_table :: ndarray where
  "example_table = Arr2 0 0 2 9 9 1"

text \<open>The file of the example run, and a command line that names it and an output path.\<close>

definition example_file :: "field list list" where
  "example_file =
     [map Number [1, 100, 200, 300, 400, 500, 600, 700, 800],
      map Number [2, 150, 250, 350, 450, 550, 650, 750, 850]]"

definition example_args :: args where
  "example_args =
     \<lparr>arg_file = ''data.txt'', arg_xlabel = None, arg_title = None, arg_output = Some ''out.png''\<rparr>"

text \<open>A file of \<open>R\<close> lines of \<open>C\<close> numbers each.\<close>

definition numeric_file :: "field list list \<Rightarrow> nat \<Rightarrow> nat \<Rightarrow> bool" where
  "numeric_file lines R C =
     (length lines = R \<and> list_all (\<lambda>r. length r = C \<and> list_all is_number r) lines)"

section \<open>Properties\<close>

subsection \<open>Double arithmetic\<close>

lemma fl_pos_scale:
  "2 ^ 52 \<le> x * 2 ^ k \<Longrightarrow> x * 2 ^ k < 2 ^ 53 \<Longrightarrow> fl_pos x = round_even (x * 2 ^ k) / 2 ^ k"
proof (induction k arbitrary: x)
  case 0
  then show ?case
    by (subst fl_pos.simps) simp
next
  case (Suc k)
  have pos: "0 < x"
  proof (rule ccontr)
    assume "\<not> 0 < x"
    then have "x * 2 ^ Suc k \<le> 0"
      by (simp add: mult_le_0_iff)
    with Suc.prems(1) show False
      by (smt (verit) zero_less_power)
  qed
  have "x * 2 \<le> x * 2 ^ Suc k"
    using pos by simp
  with Suc.prems(2) have small: "x < 2 ^ 52"
    by simp
  have ih: "fl_pos (2 * x) = round_even (2 * x * 2 ^ k) / 2 ^ k"
    using Suc.prems by (intro Suc.IH) (simp_all add: mult.assoc mult.left_commute)
  have "fl_pos x = fl_pos (2 * x) / 2"
    using pos small by (subst fl_pos.simps) simp
  with ih show ?case
    by (simp add: mult.assoc mult.left_commute)
qed


lemma fl_zero: "fl 0 = 0"
  by (simp add: fl_def fl_pos.simps)

lemma fl_eval:
  "2 ^ 52 \<le> \<bar>x\<bar> * 2 ^ k \<Longrightarrow> \<bar>x\<bar> * 2 ^ k < 2 ^ 53 \<Longrightarrow>
   fl x = (if x < 0 then - (round_even (- x * 2 ^ k) / 2 ^ k) else round_even (x * 2 ^ k) / 2 ^ k)"
  using fl_pos_scale [of "- x" k] fl_pos_scale [of x k] by (simp add: fl_def)




lemma MULTIPLIER_value: "MULTIPLIER = 4722366482869645 / 4722366482869645213696"
  by (simp add: MULTIPLIER_def fl_eval [where k = 72] round_even_def Let_def)

lemma WIDTH_8: "fdiv WIDTH 8 = 0.0625"
  by (simp add: fdiv_def WIDTH_def fl_eval [where k = 56] round_even_def Let_def)

lemma delta_values:
  "delta 0 8 = - (1 / 4) \<and>
   delta 1 8 = - (6433713753386423 / 36028797018963968) \<and>
   delta 2 8 = - (1930114126015927 / 18014398509481984) \<and>
   delta 3 8 = - (1286742750677285 / 36028797018963968) \<and>
   delta 4 8 = 321685687669321 / 9007199254740992 \<and>
   delta 5 8 = 1930114126015927 / 18014398509481984 \<and>
   delta 6 8 = 3216856876693211 / 18014398509481984 \<and>
   delta 7 8 = 1 / 4"
  by (simp add: delta_def fadd_def fmul_def fdiv_def WIDTH_def fl_zero
      fl_eval [where k = 51] fl_eval [where k = 52] fl_eval [where k = 53] fl_eval [where k = 54] fl_eval [where k = 55] fl_eval [where k = 56] fl_eval [where k = 57] round_even_def Let_def)


text \<open>The doubles of the example runs.\<close>

lemma below_8: "i < 8 \<Longrightarrow> i = 0 \<or> i = 1 \<or> i = 2 \<or> i = 3 \<or> i = 4 \<or> i = 5 \<or> i = 6 \<or> i = (7::nat)"
  by arith

lemma delta_8_near:
  assumes "i < 8"
  shows "\<bar>delta i 8 - (- 0.25 + real i * (0.5 / 7))\<bar> \<le> 1 / 2 ^ 55 \<and>
    \<bar>delta i 8 + delta (7 - i) 8\<bar> \<le> 1 / 2 ^ 55"
  using below_8 [OF assms] delta_values by (elim disjE) simp_all

lemma delta_8_increasing:
  assumes "i < j" and "j < 8"
  shows "delta i 8 < delta j 8"
proof -
  from assms have "i < 8"
    by simp
  from below_8 [OF this] below_8 [OF assms(2)] assms(1) delta_values show ?thesis
    by (elim disjE) simp_all
qed

lemma fadd_double: "fadd 0 (- (6433713753386423 / 36028797018963968)) = - (6433713753386423 / 36028797018963968) \<and>
  fadd 0 (3216856876693211 / 18014398509481984) = 3216856876693211 / 18014398509481984"
  by (simp add: fadd_def fl_eval [where k = 55] round_even_def Let_def)




lemma small_chart_doubles:
  "delta 0 (Suc (Suc 0)) = - (1 / 4) \<and> delta (Suc 0) (Suc (Suc 0)) = 1 / 4 \<and>
   fadd 0 (- (1 / 4)) = - (1 / 4) \<and> fadd 1 (- (1 / 4)) = 3 / 4 \<and>
   fadd 0 (1 / 4) = 1 / 4 \<and> fadd 1 (1 / 4) = 5 / 4 \<and>
   fdiv WIDTH 2 = 1 / 4 \<and>
   fmul 100 MULTIPLIER = 1844674407370955 / 18446744073709551616 \<and>
   fmul 150 MULTIPLIER = 5534023222112865 / 36893488147419103232 \<and>
   fmul 200 MULTIPLIER = 1844674407370955 / 9223372036854775808 \<and>
   fmul 250 MULTIPLIER = 1152921504606847 / 4611686018427387904"
  by (simp add: delta_def WIDTH_def MULTIPLIER_value fadd_def fmul_def fdiv_def fl_zero
      round_even_def Let_def
      fl_eval [where k = 52] fl_eval [where k = 53] fl_eval [where k = 54]
      fl_eval [where k = 64] fl_eval [where k = 65] fl_eval [where k = 66])

subsection \<open>Arrays and the heap\<close>

lemma elems_append: "base a < length h \<Longrightarrow> elems (h @ ext) a = elems h a"
  by (cases a) (simp_all add: nth_append)

lemma vec_base: "vec h a \<Longrightarrow> base a < length h"
  by (cases a) simp_all

lemma vec_append: "vec h a \<Longrightarrow> vec (h @ ext) a"
  by (cases a) simp_all

lemma scalar_op_vec:
  assumes "vec h a"
  shows "scalar_op f h a = (Arr1 (length h) 0 (length (elems h a)) 1, h @ [map f (elems h a)])"
  using assms by (cases a) (simp_all add: scalar_op_def)

lemma elems_new:
  "length vs = n \<Longrightarrow> elems ((h @ [vs]) @ ext) (Arr1 (length h) 0 n 1) = vs"
  by (auto simp add: nth_append map_nth)

subsection \<open>The loop\<close>

lemma bar_loop_step:
  assumes n: "2 \<le> n" and x: "vec (heap w) x" and col: "vec (heap w) col"
    and i: "i < length channel_labels"
  shows "bar_loop x n w ((i, col) # rest) =
    bar_loop x n
      (w\<lparr>heap := heap w @ [map (\<lambda>v. fadd v (delta i n)) (elems (heap w) x),
                             map (\<lambda>v. fmul v MULTIPLIER) (elems (heap w) col)],
         calls := calls w @ [bar_of (heap w) x n (i, col)]\<rparr>) rest"
proof -
  let ?h = "heap w"
  let ?A = "map (\<lambda>v. fadd v (delta i n)) (elems ?h x)"
  let ?B = "map (\<lambda>v. fmul v MULTIPLIER) (elems ?h col)"
  have sx: "scalar_op (\<lambda>v. fadd v (delta i n)) ?h x = (Arr1 (length ?h) 0 (length (elems ?h x)) 1, ?h @ [?A])"
    by (rule scalar_op_vec [OF x])
  have col1: "vec (?h @ [?A]) col"
    by (rule vec_append [OF col])
  have e1: "elems (?h @ [?A]) col = elems ?h col"
    by (rule elems_append [OF vec_base [OF col]])
  have sy: "scalar_op (\<lambda>v. fmul v MULTIPLIER) (?h @ [?A]) col =
      (Arr1 (length (?h @ [?A])) 0 (length (elems ?h col)) 1, (?h @ [?A]) @ [?B])"
    using scalar_op_vec [OF col1, of "\<lambda>v. fmul v MULTIPLIER"] e1 by simp
  have ex: "elems ((?h @ [?A]) @ [?B]) (Arr1 (length ?h) 0 (length (elems ?h x)) 1) = ?A"
    by (rule elems_new) simp
  have ey: "elems ((?h @ [?A]) @ [?B]) (Arr1 (length (?h @ [?A])) 0 (length (elems ?h col)) 1) = ?B"
    using elems_new [of ?B "length (elems ?h col)" "?h @ [?A]" "[]"] by simp
  have n0: "int n - 1 \<noteq> 0" "n \<noteq> 0"
    using n by auto
  show ?thesis
    using n0 i ex ey by (simp add: sx sy bar_of_def del: elems.simps)
qed

lemma bar_loop_append:
  assumes "2 \<le> n" and "vec (heap w) x"
    and "\<forall>p \<in> set l. fst p < length channel_labels \<and> vec (heap w) (snd p)"
  shows "\<exists>ext. bar_loop x n w (l @ l') =
           bar_loop x n (w\<lparr>heap := heap w @ ext, calls := calls w @ map (bar_of (heap w) x n) l\<rparr>) l'"
  using assms
proof (induction l arbitrary: w)
  case Nil
  have "bar_loop x n w ([] @ l') =
      bar_loop x n (w\<lparr>heap := heap w @ [], calls := calls w @ map (bar_of (heap w) x n) []\<rparr>) l'"
    by simp
  then show ?case by blast
next
  case (Cons p l)
  obtain i col where p: "p = (i, col)" by (cases p)
  let ?h = "heap w"
  let ?new = "[map (\<lambda>v. fadd v (delta i n)) (elems ?h x), map (\<lambda>v. fmul v MULTIPLIER) (elems ?h col)]"
  let ?w1 = "w\<lparr>heap := ?h @ ?new, calls := calls w @ [bar_of ?h x n (i, col)]\<rparr>"
  from Cons.prems p have i: "i < length channel_labels" and col: "vec ?h col"
    by auto
  have step: "bar_loop x n w ((p # l) @ l') = bar_loop x n ?w1 (l @ l')"
    unfolding p append_Cons by (rule bar_loop_step [OF Cons.prems(1) Cons.prems(2) col i])
  have x1: "vec (heap ?w1) x"
    using vec_append [OF Cons.prems(2)] by simp
  have l1: "\<forall>p \<in> set l. fst p < length channel_labels \<and> vec (heap ?w1) (snd p)"
    using Cons.prems(3) vec_append by simp
  from Cons.IH [OF Cons.prems(1) x1 l1] obtain ext where
    ih: "bar_loop x n ?w1 (l @ l') =
      bar_loop x n (?w1\<lparr>heap := heap ?w1 @ ext, calls := calls ?w1 @ map (bar_of (heap ?w1) x n) l\<rparr>) l'"
    by blast
  have same: "map (bar_of (heap ?w1) x n) l = map (bar_of ?h x n) l"
  proof (rule map_cong [OF refl])
    fix q assume q: "q \<in> set l"
    with Cons.prems(3) have "vec ?h (snd q)" by simp
    then show "bar_of (heap ?w1) x n q = bar_of ?h x n q"
      using elems_append [OF vec_base [OF Cons.prems(2)], of ?new]
        elems_append [OF vec_base, of ?h "snd q" ?new]
      by (simp add: bar_of_def del: elems.simps)
  qed
  have "bar_loop x n w ((p # l) @ l') =
      bar_loop x n (w\<lparr>heap := ?h @ (?new @ ext), calls := calls w @ map (bar_of ?h x n) (p # l)\<rparr>) l'"
    unfolding step ih same by (simp add: p)
  then show ?case by blast
qed

lemma bar_loop_index_error:
  assumes "2 \<le> n" and "\<not> i < length channel_labels"
  shows "\<exists>ext. bar_loop x n w ((i, col) # rest) = (w\<lparr>heap := heap w @ ext\<rparr>, Raised IndexError)"
proof -
  have n0: "int n - 1 \<noteq> 0" "n \<noteq> 0"
    using assms(1) by auto
  have "bar_loop x n w ((i, col) # rest) =
      (w\<lparr>heap := heap w @ [map (\<lambda>v. fadd v (delta i n)) (elems (heap w) x),
          map (\<lambda>v. fmul v MULTIPLIER)
            (elems (heap w @ [map (\<lambda>v. fadd v (delta i n)) (elems (heap w) x)]) col)]\<rparr>,
       Raised IndexError)"
    using n0 assms(2) by (simp add: scalar_op_def del: elems.simps)
  then show ?thesis by blast
qed

lemma bar_loop_zero_division:
  "bar_loop x 1 w ((i, col) # rest) = (w, Raised ZeroDivisionError)"
  by simp

lemma bar_loop_frame:
  "bar_loop x n w l = (w', r) \<Longrightarrow> \<exists>ext. heap w' = heap w @ ext"
proof (induction l arbitrary: w)
  case Nil
  then show ?case by simp
next
  case (Cons p l)
  obtain i col where p: "p = (i, col)" by (cases p)
  show ?case
  proof (cases "int n - 1 = 0 \<or> n = 0 \<or> \<not> i < length channel_labels")
    case True
    with Cons.prems show ?thesis
      by (auto simp add: p scalar_op_def simp del: elems.simps split: if_splits)
  next
    case False
    let ?h1 = "heap w @ [map (\<lambda>v. fadd v (delta i n)) (elems (heap w) x)]"
    let ?h2 = "?h1 @ [map (\<lambda>v. fmul v MULTIPLIER) (elems ?h1 col)]"
    from False Cons.prems obtain cs where
      "bar_loop x n (w\<lparr>heap := ?h2, calls := cs\<rparr>) l = (w', r)"
      by (simp add: p scalar_op_def del: elems.simps)
    from Cons.IH [OF this] obtain ext where "heap w' = ?h2 @ ext"
      by auto
    then have "heap w' = heap w @ ([map (\<lambda>v. fadd v (delta i n)) (elems (heap w) x),
        map (\<lambda>v. fmul v MULTIPLIER) (elems ?h1 col)] @ ext)"
      by simp
    then show ?thesis by blast
  qed
qed

lemma enumerate_map_upt:
  "enumerate 0 (map f [0..<m]) = map (\<lambda>i. (i, f i)) [0..<m]"
  by (simp add: enumerate_eq_zip zip_map2 zip_same_conv_map)

subsection \<open>\<open>plot\<close> on a two-dimensional array\<close>

lemma length_elems_Arr1 [simp]: "length (elems h (Arr1 b off n s)) = n"
  by simp

lemma plot_unfold:
  assumes "1 \<le> C"
  shows "plot w (Arr2 b off R C rs cs) xl t out =
    (case bar_loop (Arr1 (length (heap w)) 0 R 1) (C - 1)
            (w\<lparr>heap := heap w @ [map real [0..<R]], calls := calls w @ [Subplots]\<rparr>)
            (map (\<lambda>i. (i, Arr1 b (off + cs + i * cs) R rs)) [0..<C - 1]) of
       (w2, Raised e) \<Rightarrow> (w2, Raised e)
     | (w2, Returned) \<Rightarrow>
         (w2\<lparr>calls := calls w2 @
              decorate (elems (heap w2) (Arr1 (length (heap w)) 0 R 1))
                (map py_int (elems (heap w) (Arr1 b off R rs))) xl t out\<rparr>,
          Returned))"
  using assms
  by (simp add: plot_def arange_def enumerate_map_upt del: elems.simps bar_loop.simps
      split: prod.split outcome.split)

lemma bar_of_column:
  assumes "b < length h"
  shows "bar_of (h @ [map real [0..<R]]) (Arr1 (length h) 0 R 1) n (i, Arr1 b (off + cs + i * cs) R rs) =
    Bar (map (\<lambda>k. fadd (real k) (delta i n)) [0..<R])
        (map (\<lambda>k. fmul (h ! b ! (off + k * rs + (i + 1) * cs)) MULTIPLIER) [0..<R])
        (fdiv WIDTH (real n)) (channel_labels ! i)"
proof -
  have x: "elems (h @ [map real [0..<R]]) (Arr1 (length h) 0 R 1) = map real [0..<R]"
    using elems_new [of "map real [0..<R]" R h "[]"] by simp
  have c: "elems (h @ [map real [0..<R]]) (Arr1 b (off + cs + i * cs) R rs) =
      map (\<lambda>k. h ! b ! (off + k * rs + (i + 1) * cs)) [0..<R]"
    using assms by (simp add: nth_append algebra_simps)
  show ?thesis
    unfolding bar_of_def fst_conv snd_conv x c by (simp add: comp_def)
qed

lemma plot_table:
  assumes b: "b < length (heap w)" and C: "3 \<le> C" "C \<le> 9"
  shows "\<exists>ext. plot w (Arr2 b off R C rs cs) xl t out =
    (w\<lparr>heap := heap w @ ext,
       calls := calls w @ Subplots # map (chart_bar (heap w) (Arr2 b off R C rs cs)) [0..<C - 1] @
         decorate (map real [0..<R]) (map py_int (elems (heap w) (Arr1 b off R rs))) xl t out\<rparr>,
     Returned)"
proof -
  let ?h = "heap w"
  let ?x = "Arr1 (length ?h) 0 R 1"
  let ?h1 = "?h @ [map real [0..<R]]"
  let ?w1 = "w\<lparr>heap := ?h1, calls := calls w @ [Subplots]\<rparr>"
  let ?l = "map (\<lambda>i. (i, Arr1 b (off + cs + i * cs) R rs)) [0..<C - 1]"
  have n: "2 \<le> C - 1" using C by simp
  have x: "vec (heap ?w1) ?x" by simp
  have l: "\<forall>p \<in> set ?l. fst p < length channel_labels \<and> vec (heap ?w1) (snd p)"
    using b C by (auto simp add: channel_labels_def)
  from bar_loop_append [OF n x l, of "[]"] obtain ext where
    loop: "bar_loop ?x (C - 1) ?w1 ?l =
      (?w1\<lparr>heap := heap ?w1 @ ext, calls := calls ?w1 @ map (bar_of (heap ?w1) ?x (C - 1)) ?l\<rparr>, Returned)"
    by auto
  have bars: "map (bar_of (heap ?w1) ?x (C - 1)) ?l = map (chart_bar ?h (Arr2 b off R C rs cs)) [0..<C - 1]"
    using bar_of_column [OF b] by (simp add: chart_bar_def comp_def del: elems.simps)
  have ticks: "elems (heap ?w1 @ ext) ?x = map real [0..<R]"
    using elems_new [of "map real [0..<R]" R ?h ext] by simp
  have pu: "plot w (Arr2 b off R C rs cs) xl t out =
    (case bar_loop ?x (C - 1) ?w1 ?l of
       (w2, Raised e) \<Rightarrow> (w2, Raised e)
     | (w2, Returned) \<Rightarrow>
         (w2\<lparr>calls := calls w2 @
              decorate (elems (heap w2) ?x) (map py_int (elems ?h (Arr1 b off R rs))) xl t out\<rparr>,
          Returned))"
    by (rule plot_unfold) (use C in simp)
  have "plot w (Arr2 b off R C rs cs) xl t out =
    (w\<lparr>heap := ?h @ (map real [0..<R] # ext),
       calls := calls w @ Subplots # map (chart_bar ?h (Arr2 b off R C rs cs)) [0..<C - 1] @
         decorate (map real [0..<R]) (map py_int (elems ?h (Arr1 b off R rs))) xl t out\<rparr>,
     Returned)"
    unfolding pu loop bars using ticks by (simp del: elems.simps)
  then show ?thesis by blast
qed

lemma plot_zero_division:
  "plot w (Arr2 b off R 2 rs cs) xl t out =
     (w\<lparr>heap := heap w @ [map real [0..<R]], calls := calls w @ [Subplots]\<rparr>,
      Raised ZeroDivisionError)"
  by (simp add: plot_unfold del: elems.simps)

lemma plot_index_error:
  assumes b: "b < length (heap w)" and C: "9 < C"
  shows "\<exists>ext. plot w (Arr2 b off R C rs cs) xl t out =
    (w\<lparr>heap := heap w @ ext,
       calls := calls w @ Subplots # map (chart_bar (heap w) (Arr2 b off R C rs cs)) [0..<8]\<rparr>,
     Raised IndexError)"
proof -
  let ?h = "heap w"
  let ?x = "Arr1 (length ?h) 0 R 1"
  let ?h1 = "?h @ [map real [0..<R]]"
  let ?w1 = "w\<lparr>heap := ?h1, calls := calls w @ [Subplots]\<rparr>"
  let ?f = "\<lambda>i. (i, Arr1 b (off + cs + i * cs) R rs)"
  let ?l = "map ?f [0..<8]"
  have split: "[0..<C - 1] = [0..<8] @ 8 # [9..<C - 1]"
  proof -
    have "[0..<C - 1] = [0..<8] @ [8..<C - 1]"
      using C upt_add_eq_append [of 0 8 "C - 1 - 8"] by simp
    moreover have "[8..<C - 1] = 8 # [9..<C - 1]"
      using C by (simp add: upt_conv_Cons)
    ultimately show ?thesis by simp
  qed
  have n: "2 \<le> C - 1" using C by simp
  have x: "vec (heap ?w1) ?x" by simp
  have l: "\<forall>p \<in> set ?l. fst p < length channel_labels \<and> vec (heap ?w1) (snd p)"
    using b by (auto simp add: channel_labels_def)
  from bar_loop_append [OF n x l, of "?f 8 # map ?f [9..<C - 1]"] obtain ext where
    loop: "bar_loop ?x (C - 1) ?w1 (?l @ ?f 8 # map ?f [9..<C - 1]) =
      bar_loop ?x (C - 1)
        (?w1\<lparr>heap := heap ?w1 @ ext, calls := calls ?w1 @ map (bar_of (heap ?w1) ?x (C - 1)) ?l\<rparr>)
        (?f 8 # map ?f [9..<C - 1])"
    by auto
  have i8: "\<not> 8 < length channel_labels"
    by (simp add: channel_labels_def)
  from bar_loop_index_error [OF n i8] obtain ext' where
    err: "bar_loop ?x (C - 1)
        (?w1\<lparr>heap := heap ?w1 @ ext, calls := calls ?w1 @ map (bar_of (heap ?w1) ?x (C - 1)) ?l\<rparr>)
        (?f 8 # map ?f [9..<C - 1]) =
      (?w1\<lparr>heap := heap ?w1 @ ext, calls := calls ?w1 @ map (bar_of (heap ?w1) ?x (C - 1)) ?l,
          heap := heap (?w1\<lparr>heap := heap ?w1 @ ext,
             calls := calls ?w1 @ map (bar_of (heap ?w1) ?x (C - 1)) ?l\<rparr>) @ ext'\<rparr>,
       Raised IndexError)"
    by blast
  note loop2 = trans [OF loop err]
  have bars: "map (bar_of (heap ?w1) ?x (C - 1)) ?l = map (chart_bar ?h (Arr2 b off R C rs cs)) [0..<8]"
    using bar_of_column [OF b] by (simp add: chart_bar_def comp_def del: elems.simps)
  have whole: "map ?f [0..<C - 1] = ?l @ ?f 8 # map ?f [9..<C - 1]"
    unfolding split by simp
  have pu: "plot w (Arr2 b off R C rs cs) xl t out =
    (case bar_loop ?x (C - 1) ?w1 (map ?f [0..<C - 1]) of
       (w2, Raised e) \<Rightarrow> (w2, Raised e)
     | (w2, Returned) \<Rightarrow>
         (w2\<lparr>calls := calls w2 @
              decorate (elems (heap w2) ?x) (map py_int (elems ?h (Arr1 b off R rs))) xl t out\<rparr>,
          Returned))"
    by (rule plot_unfold) (use C in simp)
  have "plot w (Arr2 b off R C rs cs) xl t out =
    (w\<lparr>heap := ?h @ (map real [0..<R] # ext @ ext'),
       calls := calls w @ Subplots # map (chart_bar ?h (Arr2 b off R C rs cs)) [0..<8]\<rparr>,
     Raised IndexError)"
    unfolding pu whole loop2 bars by (simp del: elems.simps)
  then show ?thesis by blast
qed

lemma plot_frame:
  assumes "plot w data xl t out = (w', r)"
  shows "\<exists>ext. heap w' = heap w @ ext"
proof (cases data)
  case (Arr0 b off)
  with assms show ?thesis by (simp add: plot_def)
next
  case (Arr1 b off n s)
  with assms show ?thesis by (simp add: plot_def)
next
  case (Arr2 b off R C rs cs)
  show ?thesis
  proof (cases "1 \<le> C")
    case False
    with assms Arr2 show ?thesis by (simp add: plot_def)
  next
    case True
    let ?x = "Arr1 (length (heap w)) 0 R 1"
    let ?w1 = "w\<lparr>heap := heap w @ [map real [0..<R]], calls := calls w @ [Subplots]\<rparr>"
    let ?l = "map (\<lambda>i. (i, Arr1 b (off + cs + i * cs) R rs)) [0..<C - 1]"
    obtain w2 r2 where loop: "bar_loop ?x (C - 1) ?w1 ?l = (w2, r2)"
      by (cases "bar_loop ?x (C - 1) ?w1 ?l")
    from bar_loop_frame [OF loop] obtain ext where ext: "heap w2 = heap ?w1 @ ext"
      by blast
    have "heap w' = heap w2"
      using assms unfolding Arr2 plot_unfold [OF True] loop
      by (cases r2) auto
    with ext have "heap w' = heap w @ (map real [0..<R] # ext)"
      by simp
    then show ?thesis by blast
  qed
qed

subsection \<open>The calls of a run\<close>

lemma table_Arr2:
  assumes "table h data R C"
  obtains b off rs cs where "data = Arr2 b off R C rs cs" and "b < length h"
  using assms by (cases data) auto

lemma column_Arr2:
  "j < C \<Longrightarrow> column h (Arr2 b off R C rs cs) j = map (\<lambda>k. h ! b ! (off + k * rs + j * cs)) [0..<R]"
  by (simp add: column_def algebra_simps)

lemma getitem2_column:
  "table h data R C \<Longrightarrow> k < R \<Longrightarrow> j < C \<Longrightarrow> getitem2 h data k j = Inr (column h data j ! k)"
  by (erule table_Arr2) (simp add: column_Arr2)


lemma bars_append: "bars (xs @ ys) = bars xs @ bars ys"
  by (simp add: bars_def)

lemma bars_Subplots: "bars (Subplots # cs) = bars cs"
  by (simp add: bars_def)

lemma bars_decorate: "bars (decorate x ls xl t out) = []"
  by (simp add: decorate_def bars_def split: option.split)

lemma bars_chart:
  "bars (map (chart_bar h (Arr2 b off R C rs cs)) is) = map (chart_bar h (Arr2 b off R C rs cs)) is"
  by (induction "is") (simp_all add: bars_def chart_bar_def)

lemma made_append: "calls w' = calls w @ cs \<Longrightarrow> made w w' = cs"
  by (simp add: made_def)

lemma made_table:
  assumes "table (heap w) data R C" and "3 \<le> C" and "C \<le> 9"
    and "plot w data xl t out = (w', r)"
  shows "r = Returned \<and>
    made w w' = Subplots # map (chart_bar (heap w) data) [0..<C - 1] @
      decorate (map real [0..<R]) (map py_int (column (heap w) data 0)) xl t out"
proof -
  from assms(1) obtain b off rs cs where d: "data = Arr2 b off R C rs cs" and b: "b < length (heap w)"
    by (rule table_Arr2)
  have c0: "column (heap w) data 0 = elems (heap w) (Arr1 b off R rs)"
    using assms(2) by (simp add: d column_def)
  from plot_table [OF b assms(2,3), of off R rs cs xl t out] assms(4)
  show ?thesis
    unfolding d [symmetric] c0 [symmetric] by (auto simp add: made_def)
qed

lemma bars_made_table:
  assumes "table (heap w) data R C" and "3 \<le> C" and "C \<le> 9"
    and "plot w data xl t out = (w', r)"
  shows "bars (made w w') = map (chart_bar (heap w) data) [0..<C - 1]"
proof -
  from assms(1) obtain b off rs cs where d: "data = Arr2 b off R C rs cs"
    by (rule table_Arr2)
  from made_table [OF assms] show ?thesis
    by (simp add: bars_Subplots bars_append bars_decorate d bars_chart)
qed

lemma made_wide_table:
  assumes "table (heap w) data R C" and "9 < C" and "plot w data xl t out = (w', r)"
  shows "r = Raised IndexError \<and> made w w' = Subplots # map (chart_bar (heap w) data) [0..<8]"
proof -
  from assms(1) obtain b off rs cs where d: "data = Arr2 b off R C rs cs" and b: "b < length (heap w)"
    by (rule table_Arr2)
  from plot_index_error [OF b assms(2), of off R rs cs xl t out] assms(3)
  show ?thesis
    unfolding d [symmetric] by (auto simp add: made_def)
qed

lemma made_one_series:
  assumes "table (heap w) data R 2" and "plot w data xl t out = (w', r)"
  shows "r = Raised ZeroDivisionError \<and> made w w' = [Subplots]"
proof -
  from assms(1) obtain b off rs cs where d: "data = Arr2 b off R 2 rs cs"
    by (rule table_Arr2)
  from assms(2) show ?thesis
    unfolding d plot_zero_division by (auto simp add: made_def)
qed

lemma xticklabels_append: "xticklabels (xs @ ys) = xticklabels xs @ xticklabels ys"
  by (induction xs rule: xticklabels.induct) simp_all

lemma xticks_append: "xticks (xs @ ys) = xticks xs @ xticks ys"
  by (induction xs rule: xticks.induct) simp_all

lemma files_written_append: "files_written (xs @ ys) = files_written xs @ files_written ys"
  by (induction xs rule: files_written.induct) simp_all

lemma chart_bars_quiet:
  "xticklabels (map (chart_bar h (Arr2 b off R C rs cs)) is) = [] \<and>
   xticks (map (chart_bar h (Arr2 b off R C rs cs)) is) = [] \<and>
   files_written (map (chart_bar h (Arr2 b off R C rs cs)) is) = [] \<and>
   Show \<notin> set (map (chart_bar h (Arr2 b off R C rs cs)) is)"
  by (induction "is") (simp_all add: chart_bar_def)

lemma chart_bar_not_Show: "Show \<noteq> chart_bar h (Arr2 b off R C rs cs) i"
  by (simp add: chart_bar_def)

lemma decorate_calls:
  "xticklabels (decorate x ls xl t out) = [ls] \<and> xticks (decorate x ls xl t out) = [x] \<and>
   decorate x ls xl t out \<noteq> [] \<and>
   files_written (decorate x ls xl t (Some path)) = [path] \<and>
   last (decorate x ls xl t (Some path)) = Savefig path ''png'' 150 ''tight'' \<and>
   Show \<notin> set (decorate x ls xl t (Some path)) \<and>
   files_written (decorate x ls xl t None) = [] \<and>
   last (decorate x ls xl t None) = Show"
  by (simp add: decorate_def split: option.split)

lemma getitem2_append:
  "base a < length h \<Longrightarrow> getitem2 (h @ ext) a i j = getitem2 h a i j"
  by (cases a) (simp_all add: nth_append)

lemma take_labels: "n \<le> length xs \<Longrightarrow> map (\<lambda>i. xs ! i) [0..<n] = take n xs"
  by (simp add: list_eq_iff_nth_eq)

lemma plot_collapse: "plot w data xl t out = (fst (plot w data xl t out), snd (plot w data xl t out))"
  by simp

subsection \<open>Loading the file\<close>

lemma length_concat_rows:
  "list_all (\<lambda>r. length r = C) rows \<Longrightarrow> length (concat (map (map f) rows)) = length rows * C"
  by (induction rows) simp_all

lemma loadtxt_table:
  assumes "numeric_file lines R C" and "2 \<le> R" and "2 \<le> C"
  shows "loadtxt h lines = Inr (Arr2 (length h) 0 R C C 1, h @ [concat (map (map number_of) lines)])"
proof -
  from assms(1) have len: "length lines = R"
    and all: "\<forall>r \<in> set lines. length r = C \<and> list_all is_number r"
    by (simp_all add: numeric_file_def list_all_iff)
  from all assms(3) have rows: "filter (\<lambda>r. r \<noteq> []) lines = lines"
    by (auto simp add: filter_id_conv)
  from len assms(2) have ne: "lines \<noteq> []"
    by auto
  then have "hd lines \<in> set lines"
    by simp
  with all have hd: "length (hd lines) = C"
    by blast
  have num: "list_all (list_all is_number) lines"
    using all by (simp add: list_all_iff)
  have same: "list_all (\<lambda>r. length r = length (hd lines)) lines"
    using all hd by (simp add: list_all_iff)
  show ?thesis
    using num same ne len hd assms(2,3) by (simp add: loadtxt_def rows)
qed

lemma loaded_is_table:
  assumes "numeric_file lines R C"
  shows "table (h @ [concat (map (map number_of) lines)]) (Arr2 (length h) 0 R C C 1) R C"
proof -
  from assms have "list_all (\<lambda>r. length r = C) lines" and len: "length lines = R"
    by (simp_all add: numeric_file_def list_all_iff)
  then have n: "length (concat (map (map number_of) lines)) = R * C"
    using length_concat_rows [of C lines number_of] by simp
  show ?thesis
  proof (cases "R = 0 \<or> C = 0")
    case True
    then show ?thesis by auto
  next
    case False
    then obtain r c where "R = Suc r" "C = Suc c"
      by (cases R; cases C) simp_all
    with n show ?thesis by simp
  qed
qed

lemma loadtxt_one_row:
  assumes "list_all is_number row" and "2 \<le> length row"
  shows "loadtxt h [row] = Inr (Arr1 (length h) 0 (length row) 1, h @ [map number_of row])"
  using assms by (auto simp add: loadtxt_def)

lemma loadtxt_inconsistent:
  assumes "r1 \<in> set lines" and "r2 \<in> set lines" and "r1 \<noteq> []" and "r2 \<noteq> []"
    and "length r1 \<noteq> length r2"
  shows "loadtxt h lines = Inl ValueError"
proof -
  let ?rows = "filter (\<lambda>r. r \<noteq> []) lines"
  from assms have "r1 \<in> set ?rows" "r2 \<in> set ?rows"
    by simp_all
  with assms(5) have "\<not> list_all (\<lambda>r. length r = length (hd ?rows)) ?rows"
    unfolding list_all_iff by metis
  then show ?thesis
    by (simp add: loadtxt_def Let_def)
qed

lemma loadtxt_not_numeric:
  assumes "row \<in> set lines" and "f \<in> set row" and "\<not> is_number f"
  shows "loadtxt h lines = Inl ValueError"
proof -
  let ?rows = "filter (\<lambda>r. r \<noteq> []) lines"
  from assms have "row \<in> set ?rows"
    by auto
  with assms have "\<not> list_all (list_all is_number) ?rows"
    unfolding list_all_iff by blast
  then show ?thesis
    by (simp add: loadtxt_def Let_def)
qed

lemma main_missing:
  "fs (arg_file a) = None \<Longrightarrow> main fs a = (\<lparr>heap = [], calls = []\<rparr>, Raised FileNotFoundError)"
  by (simp add: main_def)

lemma main_load_error:
  "fs (arg_file a) = Some lines \<Longrightarrow> loadtxt [] lines = Inl e \<Longrightarrow>
   main fs a = (\<lparr>heap = [], calls = []\<rparr>, Raised e)"
  by (simp add: main_def)

lemma main_loaded:
  "fs (arg_file a) = Some lines \<Longrightarrow> loadtxt [] lines = Inr (data, h) \<Longrightarrow>
   main fs a = plot \<lparr>heap = h, calls = []\<rparr> data (arg_xlabel a) (arg_title a) (arg_output a)"
  by (simp add: main_def)

lemma main_collapse: "main fs a = (fst (main fs a), snd (main fs a))"
  by simp

lemma example_is_numeric: "numeric_file example_file 2 9"
  by (simp add: numeric_file_def example_file_def)

text \<open>
  From a table to the chart: on a two-dimensional array of nine columns \<open>plot\<close> draws
  eight bar series of one bar per row, and sets one tick per row. From a file to the
  chart: \<open>numpy.loadtxt\<close> returns such an array when the file has at least two rows; a
  file of a single row is returned as a one-dimensional array, on which \<open>data[:,0]\<close>
  raises \<open>IndexError\<close>.
\<close>

lemma groups_and_bars:
  assumes "table (heap w) data R 9" and "plot w data xl t out = (w', r)"
  shows "r = Returned \<and> length (bars (made w w')) = 8 \<and>
    xticks (made w w') = [map real [0..<R]] \<and>
    (\<forall>c \<in> set (bars (made w w')). length (bar_x c) = R \<and> length (bar_height c) = R)"
proof -
  from assms(1) obtain b off rs cs where d: "data = Arr2 b off R 9 rs cs"
    by (rule table_Arr2)
  have m: "r = Returned \<and> made w w' = Subplots # map (chart_bar (heap w) data) [0..<9 - 1] @
      decorate (map real [0..<R]) (map py_int (column (heap w) data 0)) xl t out"
    by (rule made_table [OF assms(1) _ _ assms(2)]) simp_all
  have bs: "bars (made w w') = map (chart_bar (heap w) data) [0..<9 - 1]"
    by (rule bars_made_table [OF assms(1) _ _ assms(2)]) simp_all
  have sizes: "\<forall>c \<in> set (map (chart_bar (heap w) data) [0..<9 - 1]).
      length (bar_x c) = R \<and> length (bar_height c) = R"
    by (simp add: d chart_bar_def del: upt_Suc)
  have ticks: "xticks (made w w') = [map real [0..<R]]"
    using m unfolding d by (simp add: xticks_append chart_bars_quiet decorate_calls del: upt_Suc)
  from m sizes ticks show ?thesis
    unfolding bs by simp
qed

lemma main_renders_table:
  assumes f: "fs (arg_file a) = Some lines" and n: "numeric_file lines R 9" and R: "2 \<le> R"
  shows "snd (main fs a) = Returned \<and> length (bars (calls (fst (main fs a)))) = 8 \<and>
    xticks (calls (fst (main fs a))) = [map real [0..<R]] \<and>
    (\<forall>c \<in> set (bars (calls (fst (main fs a)))). length (bar_x c) = R \<and> length (bar_height c) = R)"
proof -
  let ?h = "[] @ [concat (map (map number_of) lines)]"
  let ?w = "\<lparr>heap = ?h, calls = []\<rparr>"
  let ?d = "Arr2 (length ([]::heap)) 0 R 9 9 1"
  have l: "loadtxt [] lines = Inr (?d, ?h)"
    by (rule loadtxt_table [OF n R]) simp
  have t: "table (heap ?w) ?d R 9"
    using loaded_is_table [OF n, of "[]"] by simp
  have m: "main fs a = plot ?w ?d (arg_xlabel a) (arg_title a) (arg_output a)"
    by (rule main_loaded [of fs a lines, OF f l])
  have "made ?w (fst (main fs a)) = calls (fst (main fs a))"
    by (simp add: made_def)
  with groups_and_bars [OF t plot_collapse, of "arg_xlabel a" "arg_title a" "arg_output a"]
  show ?thesis
    unfolding m by simp
qed

lemma single_row_file:
  assumes f: "fs (arg_file a) = Some [row]" and "list_all is_number row" and "2 \<le> length row"
  shows "main fs a = (\<lparr>heap = [map number_of row], calls = []\<rparr>, Raised IndexError)"
  using main_loaded [of fs a "[row]", OF f loadtxt_one_row [OF assms(2,3), of "[]"]]
  by (simp add: plot_def)

subsection \<open>The claims\<close>

lemma example_is_table: "table (heap example_world) example_table 2 9"
  by (simp add: example_world_def example_heap_def example_table_def)

text \<open>
  Claim C2, as stated, fails: the offsets are computed in doubles, and the offset of
  series 1 is not the negative of the offset of series 6, nor the real number
  \<open>-0.25 + 1 * (0.5 / 7)\<close>. In the example run the bars of series 1 and 6 in the group at 0
  stand at \<open>-0.17857142857142858\<close> and \<open>0.17857142857142855\<close>.
\<close>

theorem offsets_not_symmetric:
  "bar_x (bars (made example_world (fst (plot example_world example_table None None None))) ! 1) ! 0 =
     - (6433713753386423 / 36028797018963968) \<and>
   bar_x (bars (made example_world (fst (plot example_world example_table None None None))) ! 6) ! 0 =
     3216856876693211 / 18014398509481984 \<and>
   bar_x (bars (made example_world (fst (plot example_world example_table None None None))) ! 1) ! 0 \<noteq>
     - (bar_x (bars (made example_world (fst (plot example_world example_table None None None))) ! 6) ! 0) \<and>
   delta 1 8 \<noteq> - delta (7 - 1) 8 \<and>
   delta 1 8 \<noteq> - 0.25 + 1 * (0.5 / 7)"
proof -
  have bs: "bars (made example_world (fst (plot example_world example_table None None None))) =
      map (chart_bar (heap example_world) example_table) [0..<9 - 1]"
    by (rule bars_made_table [OF example_is_table _ _ plot_collapse]) simp_all
  have x1: "bar_x (chart_bar (heap example_world) example_table 1) ! 0 = fadd 0 (delta 1 8)"
    by (simp add: chart_bar_def example_table_def upt_rec)
  have x6: "bar_x (chart_bar (heap example_world) example_table 6) ! 0 = fadd 0 (delta 6 8)"
    by (simp add: chart_bar_def example_table_def upt_rec)
  have n1: "map (chart_bar (heap example_world) example_table) [0..<9 - 1] ! 1 =
      chart_bar (heap example_world) example_table 1"
    by (simp del: upt_Suc)
  have n6: "map (chart_bar (heap example_world) example_table) [0..<9 - 1] ! 6 =
      chart_bar (heap example_world) example_table 6"
    by (simp del: upt_Suc)
  have d1: "delta 1 8 = - (6433713753386423 / 36028797018963968)"
    using delta_values by blast
  have d6: "delta 6 8 = 3216856876693211 / 18014398509481984"
    using delta_values by blast
  have f1: "fadd 0 (- (6433713753386423 / 36028797018963968)) =
      - (6433713753386423 / 36028797018963968)"
    using fadd_double by blast
  have f6: "fadd 0 (3216856876693211 / 18014398509481984) =
      3216856876693211 / 18014398509481984"
    using fadd_double by blast
  have s: "delta (7 - 1) 8 = delta 6 8"
    by simp
  show ?thesis
    unfolding bs n1 n6 x1 x6 s d1 d6 f1 f6 by simp
qed

text \<open>
  Claim C2, amended. On a table of nine columns, the bars of series \<open>i\<close> (of 8) stand at the
  doubles \<open>k + offset\<close> for the group centres \<open>k = 0, ..., R - 1\<close>, where the offset is
  the double that \<open>-WIDTH/2 + i*WIDTH/7\<close> gives; it is within \<open>2^-55\<close> of the real number
  \<open>-0.25 + i * (0.5 / 7)\<close>. The bar width is \<open>WIDTH / 8\<close>, which is 0.0625 exactly. The
  offsets are strictly increasing in \<open>i\<close>, and symmetric around 0 up to \<open>2^-55\<close>.
\<close>

theorem bar_geometry:
  assumes "table (heap w) data R 9" and "plot w data xl t out = (w', r)" and "i < 8"
  shows "WIDTH = 0.5 \<and> length (bars (made w w')) = 8 \<and>
    bar_x (bars (made w w') ! i) = map (\<lambda>k. fadd (real k) (delta i 8)) [0..<R] \<and>
    delta i 8 = fadd (fdiv (- WIDTH) 2) (fdiv (fmul (real i) WIDTH) 7) \<and>
    \<bar>delta i 8 - (- 0.25 + real i * (0.5 / 7))\<bar> \<le> 1 / 2 ^ 55 \<and>
    bar_width (bars (made w w') ! i) = fdiv WIDTH 8 \<and> fdiv WIDTH 8 = 0.0625 \<and>
    \<bar>delta i 8 + delta (7 - i) 8\<bar> \<le> 1 / 2 ^ 55 \<and>
    (\<forall>j. i < j \<and> j < 8 \<longrightarrow> delta i 8 < delta j 8)"
proof -
  from assms(1) obtain b off rs cs where d: "data = Arr2 b off R 9 rs cs"
    by (rule table_Arr2)
  have bs: "bars (made w w') = map (chart_bar (heap w) data) [0..<9 - 1]"
    by (rule bars_made_table [OF assms(1) _ _ assms(2)]) simp_all
  have bar: "length (bars (made w w')) = 8 \<and>
      bar_x (bars (made w w') ! i) = map (\<lambda>k. fadd (real k) (delta i 8)) [0..<R] \<and>
      bar_width (bars (made w w') ! i) = fdiv WIDTH 8"
    using assms(3) by (simp add: bs d chart_bar_def del: upt_Suc)
  have expr: "delta i 8 = fadd (fdiv (- WIDTH) 2) (fdiv (fmul (real i) WIDTH) 7)"
    by (simp add: delta_def)
  have mono: "\<forall>j. i < j \<and> j < 8 \<longrightarrow> delta i 8 < delta j 8"
    using delta_8_increasing by blast
  have w: "WIDTH = 0.5"
    by (simp add: WIDTH_def)
  from bar expr mono w delta_8_near [OF assms(3)] WIDTH_8 show ?thesis
    by blast
qed

theorem bar_geometry_witness:
  "table (heap example_world) example_table 2 9 \<and> (3::nat) < 8 \<and>
   bar_x (bars (made example_world (fst (plot example_world example_table None None None))) ! 3) =
     [fadd 0 (delta 3 8), fadd 1 (delta 3 8)] \<and>
   bar_width (bars (made example_world (fst (plot example_world example_table None None None))) ! 3) = 0.0625 \<and>
   \<bar>delta 3 8 - (- 0.25 + 3 * (0.5 / 7))\<bar> \<le> 1 / 2 ^ 55 \<and>
   \<bar>delta 3 8 + delta 4 8\<bar> \<le> 1 / 2 ^ 55 \<and> delta 3 8 < delta 5 8"
proof -
  have i: "(3::nat) < 8"
    by simp
  note g = bar_geometry [OF example_is_table plot_collapse i, of None None None]
  have u: "[0..<2] = [0, 1]"
    by (simp add: upt_rec)
  from g have "\<forall>j. 3 < j \<and> j < 8 \<longrightarrow> delta 3 8 < delta j 8"
    by blast
  then have "3 < (5::nat) \<and> (5::nat) < 8 \<longrightarrow> delta 3 8 < delta 5 8"
    by (rule spec)
  then have m: "delta 3 8 < delta 5 8"
    by simp
  from g have x: "bar_x (bars (made example_world
      (fst (plot example_world example_table None None None))) ! 3) =
      map (\<lambda>k. fadd (real k) (delta 3 8)) [0..<2]"
    by blast
  from g have wd: "bar_width (bars (made example_world
      (fst (plot example_world example_table None None None))) ! 3) = 0.0625"
    by simp
  from g have n: "\<bar>delta 3 8 - (- 0.25 + real 3 * (0.5 / 7))\<bar> \<le> 1 / 2 ^ 55"
    by blast
  from g have s: "\<bar>delta 3 8 + delta (7 - 3) 8\<bar> \<le> 1 / 2 ^ 55"
    by blast
  from x u have x': "bar_x (bars (made example_world
      (fst (plot example_world example_table None None None))) ! 3) =
      [fadd 0 (delta 3 8), fadd 1 (delta 3 8)]"
    by simp
  from n have n': "\<bar>delta 3 8 - (- 0.25 + 3 * (0.5 / 7))\<bar> \<le> 1 / 2 ^ 55"
    by simp
  from s have s': "\<bar>delta 3 8 + delta 4 8\<bar> \<le> 1 / 2 ^ 55"
    by simp
  from example_is_table i x' wd n' s' m show ?thesis
    by blast
qed




lemma example_column0: "column (heap example_world) example_table 0 = [1, 2]"
  by (simp add: column_def example_world_def example_heap_def example_table_def upt_rec)

lemma py_int_examples: "py_int 1 = 1 \<and> py_int 2 = 2"
  by (simp add: py_int_def)

text \<open>
  Claim C4. On a table of nine columns, \<open>ax.set_xticklabels\<close> is called once, with the
  cells of the first column cast by \<open>int\<close>, one label per row, in row order (and
  \<open>ax.set_xticks\<close> once, with the positions \<open>0, ..., R - 1\<close>).
\<close>

theorem tick_labels:
  assumes "table (heap w) data R 9" and "plot w data xl t out = (w', r)"
  shows "r = Returned \<and>
    xticklabels (made w w') = [map py_int (column (heap w) data 0)] \<and>
    length (column (heap w) data 0) = R \<and>
    (\<forall>k<R. getitem2 (heap w) data k 0 = Inr (column (heap w) data 0 ! k)) \<and>
    xticks (made w w') = [map real [0..<R]]"
proof -
  from assms(1) obtain b off rs cs where d: "data = Arr2 b off R 9 rs cs"
    by (rule table_Arr2)
  have m: "r = Returned \<and> made w w' = Subplots # map (chart_bar (heap w) data) [0..<9 - 1] @
      decorate (map real [0..<R]) (map py_int (column (heap w) data 0)) xl t out"
    by (rule made_table [OF assms(1) _ _ assms(2)]) simp_all
  have len: "length (column (heap w) data 0) = R"
    by (simp add: d column_Arr2)
  have cells: "\<forall>k<R. getitem2 (heap w) data k 0 = Inr (column (heap w) data 0 ! k)"
    using getitem2_column [OF assms(1)] by simp
  from m len cells show ?thesis
    unfolding d
    by (simp add: xticklabels_append xticks_append chart_bars_quiet decorate_calls del: upt_Suc)
qed

theorem tick_labels_witness:
  "table (heap example_world) example_table 2 9 \<and>
   snd (plot example_world example_table None None None) = Returned \<and>
   xticklabels (made example_world (fst (plot example_world example_table None None None))) = [[1, 2]]"
  using tick_labels [OF example_is_table plot_collapse, of None None None] example_is_table
  by (simp add: example_column0 py_int_examples)

text \<open>
  Claim C5. On a table of nine columns \<open>plot\<close> returns. With an output path its last
  call is \<open>plt.savefig(path, format='png', dpi=150, bbox_inches='tight')\<close>, the only file
  written is \<open>path\<close> and \<open>plt.show\<close> is not called; without one its last call is
  \<open>plt.show\<close> and no file is written.
\<close>

theorem exit_behaviour:
  assumes "table (heap w) data R 9" and "plot w data xl t out = (w', r)"
  shows "r = Returned \<and>
    (\<forall>path. out = Some path \<longrightarrow>
       last (made w w') = Savefig path ''png'' 150 ''tight'' \<and>
       files_written (made w w') = [path] \<and> Show \<notin> set (made w w')) \<and>
    (out = None \<longrightarrow> last (made w w') = Show \<and> files_written (made w w') = [])"
proof -
  from assms(1) obtain b off rs cs where d: "data = Arr2 b off R 9 rs cs"
    by (rule table_Arr2)
  have m: "r = Returned \<and> made w w' = Subplots # map (chart_bar (heap w) data) [0..<9 - 1] @
      decorate (map real [0..<R]) (map py_int (column (heap w) data 0)) xl t out"
    by (rule made_table [OF assms(1) _ _ assms(2)]) simp_all
  from m show ?thesis
    unfolding d
    by (auto simp add: files_written_append chart_bars_quiet chart_bar_not_Show decorate_calls
        simp del: upt_Suc)
qed

theorem exit_behaviour_witness:
  "table (heap example_world) example_table 2 9 \<and>
   snd (plot example_world example_table None None (Some ''out.png'')) = Returned \<and>
   last (made example_world (fst (plot example_world example_table None None (Some ''out.png'')))) =
     Savefig ''out.png'' ''png'' 150 ''tight'' \<and>
   files_written (made example_world (fst (plot example_world example_table None None (Some ''out.png'')))) =
     [''out.png''] \<and>
   snd (plot example_world example_table None None None) = Returned \<and>
   last (made example_world (fst (plot example_world example_table None None None))) = Show \<and>
   files_written (made example_world (fst (plot example_world example_table None None None))) = []"
  using exit_behaviour [OF example_is_table plot_collapse, of None None "Some ''out.png''"]
    exit_behaviour [OF example_is_table plot_collapse, of None None None] example_is_table
  by simp

text \<open>
  Claim C8. \<open>plot\<close> never writes to a buffer that existed when it was called: it only
  allocates new ones. So every cell of the table it was given reads the same after the
  run as before, whatever the outcome.
\<close>

theorem table_not_mutated:
  assumes "plot w data xl t out = (w', r)"
  shows "length (heap w) \<le> length (heap w') \<and>
    (\<forall>a<length (heap w). heap w' ! a = heap w ! a) \<and>
    (base data < length (heap w) \<longrightarrow>
       elems (heap w') data = elems (heap w) data \<and>
       (\<forall>i j. getitem2 (heap w') data i j = getitem2 (heap w) data i j))"
proof -
  from plot_frame [OF assms] obtain ext where "heap w' = heap w @ ext"
    by blast
  then show ?thesis
    by (simp add: nth_append elems_append getitem2_append)
qed

theorem table_not_mutated_witness:
  "base example_table < length (heap example_world) \<and>
   heap (fst (plot example_world example_table None None None)) ! 0 = example_heap ! 0 \<and>
   elems (heap (fst (plot example_world example_table None None None))) example_table =
     elems (heap example_world) example_table \<and>
   getitem2 (heap (fst (plot example_world example_table None None None))) example_table 1 3 = Inr 350"
proof -
  have b: "base example_table < length (heap example_world)"
    by (simp add: example_world_def example_heap_def example_table_def)
  have v: "getitem2 (heap example_world) example_table 1 3 = Inr 350"
    by (simp add: example_world_def example_heap_def example_table_def)
  have h: "heap example_world ! 0 = example_heap ! 0" "0 < length (heap example_world)"
    by (simp_all add: example_world_def example_heap_def)
  from table_not_mutated [OF plot_collapse, of example_world example_table None None None] b v h
  show ?thesis by simp
qed

text \<open>
  Claim C9. The divisor of the offset is the number of series columns of the table
  minus one: on a table of \<open>C\<close> columns (3 to 9) series \<open>i\<close> is shifted by
  \<open>-WIDTH/2 + i*WIDTH/(C - 2)\<close>, computed in doubles; with nine columns the divisor is 7
  and \<open>plot\<close> returns; with two columns it is 0 and \<open>plot\<close> raises \<open>ZeroDivisionError\<close>
  before any bar is drawn.
\<close>

theorem offset_divisor:
  assumes "table (heap w) data R C" and "plot w data xl t out = (w', r)"
  shows "(3 \<le> C \<and> C \<le> 9 \<longrightarrow> r = Returned \<and>
       (\<forall>i<C - 1. bar_x (bars (made w w') ! i) =
          map (\<lambda>k. fadd (real k)
                 (fadd (fdiv (- WIDTH) 2) (fdiv (fmul (real i) WIDTH) (real (C - 2)))))
            [0..<R])) \<and>
    (C = 9 \<longrightarrow> r = Returned \<and>
       (\<forall>i<8. bar_x (bars (made w w') ! i) =
          map (\<lambda>k. fadd (real k) (fadd (fdiv (- WIDTH) 2) (fdiv (fmul (real i) WIDTH) 7)))
            [0..<R])) \<and>
    (C = 2 \<longrightarrow> r = Raised ZeroDivisionError \<and> bars (made w w') = [])"
proof -
  from assms(1) obtain b off rs cs where d: "data = Arr2 b off R C rs cs"
    by (rule table_Arr2)
  have general: "r = Returned \<and>
       (\<forall>i<C - 1. bar_x (bars (made w w') ! i) =
          map (\<lambda>k. fadd (real k)
                 (fadd (fdiv (- WIDTH) 2) (fdiv (fmul (real i) WIDTH) (real (C - 2)))))
            [0..<R])"
    if C: "3 \<le> C" "C \<le> 9"
  proof -
    have dv: "real_of_int (int (C - 1) - 1) = real (C - 2)"
      using C by (simp add: of_nat_diff)
    have "bars (made w w') = map (chart_bar (heap w) data) [0..<C - 1]"
      by (rule bars_made_table [OF assms(1) C assms(2)])
    moreover have "r = Returned"
      using made_table [OF assms(1) C assms(2)] by simp
    ultimately show ?thesis
      unfolding d chart_bar_def delta_def dv by (simp del: upt_Suc)
  qed
  have one: "r = Raised ZeroDivisionError \<and> bars (made w w') = []" if "C = 2"
    using made_one_series [of w data R xl t out w' r] assms that by (simp add: bars_def)
  from general one show ?thesis
    by auto
qed

theorem offset_divisor_witness:
  "table (heap example_world) example_table 2 9 \<and>
   snd (plot example_world example_table None None None) = Returned \<and>
   bar_x (bars (made example_world (fst (plot example_world example_table None None None))) ! 1) =
     [fadd 0 (fadd (fdiv (- WIDTH) 2) (fdiv (fmul 1 WIDTH) 7)),
      fadd 1 (fadd (fdiv (- WIDTH) 2) (fdiv (fmul 1 WIDTH) 7))] \<and>
   table (heap \<lparr>heap = [[1, 100, 2, 150]], calls = []\<rparr>) (Arr2 0 0 2 2 2 1) 2 2 \<and>
   snd (plot \<lparr>heap = [[1, 100, 2, 150]], calls = []\<rparr> (Arr2 0 0 2 2 2 1) None None None) =
     Raised ZeroDivisionError"
proof -
  let ?w = "\<lparr>heap = [[1, 100, 2, 150]], calls = []\<rparr>"
  have t2: "table (heap ?w) (Arr2 0 0 2 2 2 1) 2 2"
    by simp
  have u: "[0..<2] = [0, 1]"
    by (simp add: upt_rec)
  from offset_divisor [OF example_is_table plot_collapse, of None None None]
  have nine: "snd (plot example_world example_table None None None) = Returned \<and>
      (\<forall>i<8. bar_x (bars (made example_world (fst (plot example_world example_table None None None))) ! i) =
          map (\<lambda>k. fadd (real k) (fadd (fdiv (- WIDTH) 2) (fdiv (fmul (real i) WIDTH) 7))) [0..<2])"
    by simp
  then have "(1::nat) < 8 \<longrightarrow>
      bar_x (bars (made example_world (fst (plot example_world example_table None None None))) ! 1) =
          map (\<lambda>k. fadd (real k) (fadd (fdiv (- WIDTH) 2) (fdiv (fmul (real 1) WIDTH) 7))) [0..<2]"
    by blast
  with nine u have a: "snd (plot example_world example_table None None None) = Returned \<and>
      bar_x (bars (made example_world (fst (plot example_world example_table None None None))) ! 1) =
        [fadd 0 (fadd (fdiv (- WIDTH) 2) (fdiv (fmul 1 WIDTH) 7)),
         fadd 1 (fadd (fdiv (- WIDTH) 2) (fdiv (fmul 1 WIDTH) 7))]"
    by simp
  from offset_divisor [OF t2 plot_collapse, of None None None]
  have b: "snd (plot ?w (Arr2 0 0 2 2 2 1) None None None) = Raised ZeroDivisionError"
    by simp
  from a b t2 example_is_table show ?thesis
    by simp
qed

text \<open>
  Claim C10. \<open>plot\<close> does not check the number of columns. On a table of \<open>C\<close> columns
  with \<open>3 \<le> C \<le> 9\<close> (and any number of rows, two or more included) it returns, having
  drawn \<open>C - 1\<close> bar series labelled with the first \<open>C - 1\<close> channel names; with more than
  nine columns it raises \<open>IndexError\<close> at \<open>channel_labels[8]\<close>, after eight series have been
  drawn and before anything else is.
\<close>

theorem column_count_not_enforced:
  assumes "table (heap w) data R C" and "plot w data xl t out = (w', r)"
  shows "(3 \<le> C \<and> C \<le> 9 \<longrightarrow>
       r = Returned \<and> length (bars (made w w')) = C - 1 \<and>
       map bar_label (bars (made w w')) = take (C - 1) channel_labels \<and>
       (\<forall>c \<in> set (bars (made w w')). length (bar_x c) = R \<and> length (bar_height c) = R)) \<and>
    (9 < C \<longrightarrow>
       r = Raised IndexError \<and> map bar_label (bars (made w w')) = channel_labels \<and>
       xticklabels (made w w') = [] \<and> files_written (made w w') = [] \<and>
       Show \<notin> set (made w w'))"
proof -
  from assms(1) obtain b off rs cs where d: "data = Arr2 b off R C rs cs"
    by (rule table_Arr2)
  have labels: "map bar_label (map (chart_bar (heap w) data) [0..<n]) = take n channel_labels"
    if "n \<le> 8" for n
    using that take_labels [of n channel_labels]
    by (simp add: d chart_bar_def comp_def channel_labels_def del: upt_Suc)
  have sizes: "\<forall>c \<in> set (map (chart_bar (heap w) data) [0..<n]).
      length (bar_x c) = R \<and> length (bar_height c) = R" for n
    by (simp add: d chart_bar_def del: upt_Suc)
  have narrow: "r = Returned \<and> length (bars (made w w')) = C - 1 \<and>
       map bar_label (bars (made w w')) = take (C - 1) channel_labels \<and>
       (\<forall>c \<in> set (bars (made w w')). length (bar_x c) = R \<and> length (bar_height c) = R)"
    if C: "3 \<le> C" "C \<le> 9"
  proof -
    have bs: "bars (made w w') = map (chart_bar (heap w) data) [0..<C - 1]"
      by (rule bars_made_table [OF assms(1) C assms(2)])
    have "r = Returned"
      using made_table [OF assms(1) C assms(2)] by simp
    with labels [of "C - 1"] sizes [of "C - 1"] C show ?thesis
      unfolding bs by simp
  qed
  have wide: "r = Raised IndexError \<and> map bar_label (bars (made w w')) = channel_labels \<and>
       xticklabels (made w w') = [] \<and> files_written (made w w') = [] \<and>
       Show \<notin> set (made w w')"
    if C: "9 < C"
  proof -
    have m: "r = Raised IndexError \<and> made w w' = Subplots # map (chart_bar (heap w) data) [0..<8]"
      by (rule made_wide_table [OF assms(1) C assms(2)])
    have bs: "bars (made w w') = map (chart_bar (heap w) data) [0..<8]"
      using m by (simp add: d bars_Subplots bars_chart del: upt_Suc)
    have all: "take 8 channel_labels = channel_labels"
      by (simp add: channel_labels_def)
    from m labels [of 8] all show ?thesis
      unfolding bs by (auto simp add: d chart_bars_quiet chart_bar_not_Show simp del: upt_Suc)
  qed
  from narrow wide show ?thesis
    by blast
qed

theorem column_count_not_enforced_witness:
  "table (heap \<lparr>heap = [[1, 100, 200, 2, 150, 250]], calls = []\<rparr>) (Arr2 0 0 2 3 3 1) 2 3 \<and>
   snd (plot \<lparr>heap = [[1, 100, 200, 2, 150, 250]], calls = []\<rparr> (Arr2 0 0 2 3 3 1) None None None) =
     Returned \<and>
   map bar_label (bars (made \<lparr>heap = [[1, 100, 200, 2, 150, 250]], calls = []\<rparr>
     (fst (plot \<lparr>heap = [[1, 100, 200, 2, 150, 250]], calls = []\<rparr> (Arr2 0 0 2 3 3 1) None None None)))) =
     [''async-channel::bounded'', ''flume::bounded''] \<and>
   table (heap \<lparr>heap = [[1, 1, 2, 3, 4, 5, 6, 7, 8, 9, 2, 1, 2, 3, 4, 5, 6, 7, 8, 9]], calls = []\<rparr>)
     (Arr2 0 0 2 10 10 1) 2 10 \<and>
   snd (plot \<lparr>heap = [[1, 1, 2, 3, 4, 5, 6, 7, 8, 9, 2, 1, 2, 3, 4, 5, 6, 7, 8, 9]], calls = []\<rparr>
     (Arr2 0 0 2 10 10 1) None None None) = Raised IndexError"
proof -
  let ?w3 = "\<lparr>heap = [[1, 100, 200, 2, 150, 250]], calls = []\<rparr>"
  let ?w10 = "\<lparr>heap = [[1, 1, 2, 3, 4, 5, 6, 7, 8, 9, 2, 1, 2, 3, 4, 5, 6, 7, 8, 9]], calls = []\<rparr>"
  have t3: "table (heap ?w3) (Arr2 0 0 2 3 3 1) 2 3"
    by simp
  have t10: "table (heap ?w10) (Arr2 0 0 2 10 10 1) 2 10"
    by simp
  have l: "take 2 channel_labels = [''async-channel::bounded'', ''flume::bounded'']"
    by (simp add: channel_labels_def)
  from column_count_not_enforced [OF t3 plot_collapse, of None None None] l
  have a: "snd (plot ?w3 (Arr2 0 0 2 3 3 1) None None None) = Returned \<and>
      map bar_label (bars (made ?w3 (fst (plot ?w3 (Arr2 0 0 2 3 3 1) None None None)))) =
        [''async-channel::bounded'', ''flume::bounded'']"
    by simp
  from column_count_not_enforced [OF t10 plot_collapse, of None None None]
  have b: "snd (plot ?w10 (Arr2 0 0 2 10 10 1) None None None) = Raised IndexError"
    by simp
  from a b t3 t10 show ?thesis
    by simp
qed

text \<open>
  Claim C1. The claim says that every valid input of \<open>R\<close> rows and nine columns is rendered
  as \<open>R\<close> groups of eight bars. The script does so for two rows or more
  (\<open>main_renders_table\<close>), and \<open>plot\<close> does so for every two-dimensional array
  (\<open>groups_and_bars\<close>); but for a file of one row of nine numbers the script raises
  \<open>IndexError\<close> before any call to matplotlib: \<open>numpy.loadtxt\<close> is called without
  \<open>ndmin=2\<close>, and returns the single row as a one-dimensional array.
\<close>

theorem one_row_file_raises:
  "main [''data.txt'' \<mapsto> [map Number [1, 100, 200, 300, 400, 500, 600, 700, 800]]] example_args =
     (\<lparr>heap = [[1, 100, 200, 300, 400, 500, 600, 700, 800]], calls = []\<rparr>, Raised IndexError)"
  by (simp add: main_def example_args_def loadtxt_def plot_def)

text \<open>
  Claim C6, as stated, fails: a file whose rows all have three columns, each of them a
  row of the wrong column count, is loaded and drawn without any error.
\<close>

theorem consistent_wrong_width_accepted:
  "main [''data.txt'' \<mapsto> [map Number [1, 100, 200], map Number [2, 150, 250]]] example_args =
     (\<lparr>heap = [[1, 100, 200, 2, 150, 250], [0, 1],
               [- (1 / 4), 3 / 4],
               [1844674407370955 / 18446744073709551616, 5534023222112865 / 36893488147419103232],
               [1 / 4, 5 / 4],
               [1844674407370955 / 9223372036854775808, 1152921504606847 / 4611686018427387904]],
        calls = [Subplots,
          Bar [- (1 / 4), 3 / 4]
              [1844674407370955 / 18446744073709551616, 5534023222112865 / 36893488147419103232]
              (1 / 4) ''async-channel::bounded'',
          Bar [1 / 4, 5 / 4]
              [1844674407370955 / 9223372036854775808, 1152921504606847 / 4611686018427387904]
              (1 / 4) ''flume::bounded'',
          Set_ylabel (''msg/'' @ [CHR 0xC2, CHR 0xB5] @ ''s''),
          Set_xticks [0, 1], Set_xticklabels [1, 2], Legend ''upper left'',
          Savefig ''out.png'' ''png'' 150 ''tight'']\<rparr>,
      Returned)"
  by (simp add: main_def example_args_def loadtxt_def plot_def arange_def scalar_op_def
      decorate_def py_int_def channel_labels_def enumerate_eq_zip upt_rec small_chart_doubles)

text \<open>
  Claim C6, amended. When two rows of the file have different numbers of columns (a row
  \<open>(1, 100, 200)\<close> among rows of nine columns, say), \<open>numpy.loadtxt\<close> raises \<open>ValueError\<close>
  and the script fails with it before any call to matplotlib.
\<close>

theorem inconsistent_columns_rejected:
  assumes "fs (arg_file a) = Some lines"
    and "r1 \<in> set lines" and "r2 \<in> set lines" and "r1 \<noteq> []" and "r2 \<noteq> []"
    and "length r1 \<noteq> length r2"
  shows "loadtxt [] lines = Inl ValueError \<and>
    main fs a = (\<lparr>heap = [], calls = []\<rparr>, Raised ValueError)"
  using main_load_error [of fs a lines ValueError, OF assms(1)]
    loadtxt_inconsistent [OF assms(2-6)] by simp

theorem inconsistent_columns_rejected_witness:
  "main [''data.txt'' \<mapsto> [map Number [1, 100, 200, 300, 400, 500, 600, 700, 800],
                            map Number [1, 100, 200]]] example_args =
     (\<lparr>heap = [], calls = []\<rparr>, Raised ValueError)"
proof -
  let ?r1 = "map Number [1, 100, 200, 300, 400, 500, 600, 700, 800]"
  let ?r2 = "map Number [1, 100, 200]"
  have f: "[''data.txt'' \<mapsto> [?r1, ?r2]] (arg_file example_args) = Some [?r1, ?r2]"
    by (simp add: example_args_def)
  have "?r1 \<in> set [?r1, ?r2]" "?r2 \<in> set [?r1, ?r2]" "?r1 \<noteq> []" "?r2 \<noteq> []"
    "length ?r1 \<noteq> length ?r2"
    by simp_all
  from inconsistent_columns_rejected
    [of "[''data.txt'' \<mapsto> [?r1, ?r2]]" example_args "[?r1, ?r2]" ?r1 ?r2, OF f this]
  show ?thesis
    by simp
qed

text \<open>
  Claim C7. The script ends with exit status 0 when it runs to its end, as it does on a
  file of two or more rows of nine numbers; with a status other than 0 when the file
  cannot be opened and when \<open>numpy.loadtxt\<close> raises: nothing catches the exception,
  and nothing has been drawn.
\<close>

theorem exit_codes:
  "(snd (main fs a) = Returned \<longrightarrow> exit_status (snd (main fs a)) = 0) \<and>
   (\<forall>lines R. fs (arg_file a) = Some lines \<and> numeric_file lines R 9 \<and> 2 \<le> R \<longrightarrow>
      snd (main fs a) = Returned \<and> exit_status (snd (main fs a)) = 0) \<and>
   (fs (arg_file a) = None \<longrightarrow>
      main fs a = (\<lparr>heap = [], calls = []\<rparr>, Raised FileNotFoundError) \<and>
      exit_status (snd (main fs a)) \<noteq> 0) \<and>
   (\<forall>lines e. fs (arg_file a) = Some lines \<and> loadtxt [] lines = Inl e \<longrightarrow>
      main fs a = (\<lparr>heap = [], calls = []\<rparr>, Raised e) \<and>
      exit_status (snd (main fs a)) \<noteq> 0)"
proof -
  have ok: "snd (main fs a) = Returned"
    if f: "fs (arg_file a) = Some lines" and n: "numeric_file lines R 9" and R: "2 \<le> R"
    for lines R
  proof -
    let ?h = "[] @ [concat (map (map number_of) lines)]"
    have l: "loadtxt [] lines = Inr (Arr2 (length ([]::heap)) 0 R 9 9 1, ?h)"
      by (rule loadtxt_table [OF n R]) simp
    have t: "table (heap \<lparr>heap = ?h, calls = []\<rparr>) (Arr2 (length ([]::heap)) 0 R 9 9 1) R 9"
      using loaded_is_table [OF n, of "[]"] by simp
    from made_table [OF t _ _ plot_collapse] show ?thesis
      unfolding main_loaded [of fs a lines, OF f l] by simp
  qed
  show ?thesis
    using ok by (auto simp add: main_missing main_load_error)
qed

theorem exit_codes_witness:
  "exit_status (snd (main [''data.txt'' \<mapsto> example_file] example_args)) = 0 \<and>
   main Map.empty example_args = (\<lparr>heap = [], calls = []\<rparr>, Raised FileNotFoundError) \<and>
   exit_status (snd (main Map.empty example_args)) = 1 \<and>
   loadtxt [] [[Number 1, Text ''abc'']] = Inl ValueError \<and>
   main [''data.txt'' \<mapsto> [[Number 1, Text ''abc'']]] example_args =
     (\<lparr>heap = [], calls = []\<rparr>, Raised ValueError) \<and>
   exit_status (snd (main [''data.txt'' \<mapsto> [[Number 1, Text ''abc'']]] example_args)) = 1"
proof -
  have f: "[''data.txt'' \<mapsto> example_file] (arg_file example_args) = Some example_file"
    by (simp add: example_args_def)
  have R: "(2::nat) \<le> 2"
    by simp
  from exit_codes [of "[''data.txt'' \<mapsto> example_file]" example_args] f example_is_numeric R
  have a: "exit_status (snd (main [''data.txt'' \<mapsto> example_file] example_args)) = 0"
    by blast
  have "Map.empty (arg_file example_args) = (None :: field list list option)"
    by simp
  with exit_codes [of Map.empty example_args]
  have b: "main Map.empty example_args = (\<lparr>heap = [], calls = []\<rparr>, Raised FileNotFoundError)"
    by blast
  have l: "loadtxt [] [[Number 1, Text ''abc'']] = Inl ValueError"
    by (simp add: loadtxt_def)
  have g: "[''data.txt'' \<mapsto> [[Number 1, Text ''abc'']]] (arg_file example_args) =
      Some [[Number 1, Text ''abc'']]"
    by (simp add: example_args_def)
  from exit_codes [of "[''data.txt'' \<mapsto> [[Number 1, Text ''abc'']]]" example_args] g l
  have c: "main [''data.txt'' \<mapsto> [[Number 1, Text ''abc'']]] example_args =
      (\<lparr>heap = [], calls = []\<rparr>, Raised ValueError)"
    by blast
  from a b c l show ?thesis
    by simp
qed

end
